theory Spec2Isabelle
  imports Main "HOL-Library.Sublist"
begin

section \<open>Python values and exceptions\<close>

text \<open>
  The pipeline of \<^verbatim>\<open>run_preprocessing_small_test.py\<close> handles DFG edges as plain Python
  tuples and reads them by position (\<^verbatim>\<open>d[1]\<close>, \<^verbatim>\<open>d[2]\<close>, \<^verbatim>\<open>d[4]\<close>). Python does not
  type these tuples, so the values are modelled dynamically: subscripting and \<^verbatim>\<open>len\<close>
  return an exception where Python raises one.
\<close>

datatype pyval =
    PInt int
  | PStr string
  | PList "pyval list"
  | PTuple "pyval list"

datatype py_error =
    IndexError
  | TypeError
  | KeyError string
  | LanguageError string
  | AssertionError

text \<open>\<^verbatim>\<open>v[i]\<close> for a non-negative constant index.\<close>

fun py_getitem :: "pyval \<Rightarrow> nat \<Rightarrow> py_error + pyval" where
  "py_getitem (PTuple xs) i = (if i < length xs then Inr (xs ! i) else Inl IndexError)"
| "py_getitem (PList xs) i = (if i < length xs then Inr (xs ! i) else Inl IndexError)"
| "py_getitem (PStr s) i = (if i < length s then Inr (PStr [s ! i]) else Inl IndexError)"
| "py_getitem (PInt n) i = Inl TypeError"

text \<open>\<^verbatim>\<open>len(v)\<close>.\<close>

fun py_len :: "pyval \<Rightarrow> py_error + nat" where
  "py_len (PTuple xs) = Inr (length xs)"
| "py_len (PList xs) = Inr (length xs)"
| "py_len (PStr s) = Inr (length s)"
| "py_len (PInt n) = Inl TypeError"

section \<open>DFG edges as the builders return them\<close>

text \<open>
  An edge is the 5-tuple \<^verbatim>\<open>(var, idx, rel, sources, source_idx)\<close> that the test scripts
  unpack (\<^verbatim>\<open>var, idx, rel, sources, source_idx = edge\<close>). The relation is a Python string.
\<close>

type_synonym DFGEdge = "string \<times> nat \<times> string \<times> string list \<times> nat list"

definition edge_var :: "DFGEdge \<Rightarrow> string" where
  "edge_var e = fst e"

definition edge_idx :: "DFGEdge \<Rightarrow> nat" where
  "edge_idx e = fst (snd e)"

definition edge_rel :: "DFGEdge \<Rightarrow> string" where
  "edge_rel e = fst (snd (snd e))"

definition edge_sources :: "DFGEdge \<Rightarrow> string list" where
  "edge_sources e = fst (snd (snd (snd e)))"

definition edge_source_idx :: "DFGEdge \<Rightarrow> nat list" where
  "edge_source_idx e = snd (snd (snd (snd e)))"

text \<open>The Python value of an edge, and of the pair the pipeline keeps of it.\<close>

definition edge_val :: "DFGEdge \<Rightarrow> pyval" where
  "edge_val e =
     PTuple [PStr (edge_var e), PInt (int (edge_idx e)), PStr (edge_rel e),
             PList (map PStr (edge_sources e)),
             PList (map (\<lambda>i. PInt (int i)) (edge_source_idx e))]"

definition edge_pair :: "DFGEdge \<Rightarrow> pyval" where
  "edge_pair e =
     PTuple [PInt (int (edge_idx e)), PList (map (\<lambda>i. PInt (int i)) (edge_source_idx e))]"

definition has_sources :: "DFGEdge \<Rightarrow> bool" where
  "has_sources e = (edge_source_idx e \<noteq> [])"

definition valid_relation :: "DFGEdge \<Rightarrow> bool" where
  "valid_relation e = (edge_rel e = ''comesFrom'' \<or> edge_rel e = ''computedFrom'')"

section \<open>extract_structure: the assertion and the assembling comprehension\<close>

text \<open>
  \<^verbatim>\<open>for d in DFG: assert (d[2]=='comesFrom' or d[2]=='computedFrom')\<close>
\<close>

fun assert_relations :: "pyval list \<Rightarrow> py_error + unit" where
  "assert_relations [] = Inr ()"
| "assert_relations (d # ds) =
     (case py_getitem d 2 of
        Inl e \<Rightarrow> Inl e
      | Inr r \<Rightarrow>
          if r = PStr ''comesFrom'' \<or> r = PStr ''computedFrom''
          then assert_relations ds
          else Inl AssertionError)"

text \<open>
  \<^verbatim>\<open>DFG = [(d[1], d[4]) for d in DFG if (len(d[4])>0)]\<close>: for each element the
  condition is evaluated first, then the pair; the first exception ends the comprehension.
\<close>

fun assemble :: "pyval list \<Rightarrow> py_error + pyval list" where
  "assemble [] = Inr []"
| "assemble (d # ds) =
     (case py_getitem d 4 of
        Inl e \<Rightarrow> Inl e
      | Inr s \<Rightarrow>
          (case py_len s of
             Inl e \<Rightarrow> Inl e
           | Inr n \<Rightarrow>
               if 0 < n then
                 (case py_getitem d 1 of
                    Inl e \<Rightarrow> Inl e
                  | Inr i \<Rightarrow>
                      (case assemble ds of
                         Inl e \<Rightarrow> Inl e
                       | Inr out \<Rightarrow> Inr (PTuple [i, s] # out)))
               else assemble ds))"

text \<open>
  The part of \<^verbatim>\<open>extract_structure\<close> that produces the DFG, given the outcome of the call
  \<^verbatim>\<open>parser[1](root_node,index_to_code,{})\<close>: the bare \<^verbatim>\<open>except:\<close> turns any exception of
  the builder into the empty list; the assertion and the comprehension stand outside the
  \<^verbatim>\<open>try\<close>.
\<close>

definition extract_structure_dfg :: "(py_error + pyval list \<times> 's) \<Rightarrow> py_error + pyval list" where
  "extract_structure_dfg outcome =
     (let DFG = (case outcome of Inl e \<Rightarrow> [] | Inr (dfg, st) \<Rightarrow> dfg)
      in case assert_relations DFG of
           Inl e \<Rightarrow> Inl e
         | Inr u \<Rightarrow> assemble DFG)"

section \<open>add_structure: the table of builder functions\<close>

text \<open>
  \<^verbatim>\<open>from parser import DFG_java, DFG_csharp, DFG_python\<close> and
  \<^verbatim>\<open>dfg_function={'python':DFG_python, 'java':DFG_java, 'cs':DFG_csharp, 'c_sharp':DFG_csharp}\<close>.
\<close>

datatype dfg_builder = DFG_python | DFG_java | DFG_csharp

definition dfg_function :: "string \<rightharpoonup> dfg_builder" where
  "dfg_function =
     [''python'' \<mapsto> DFG_python, ''java'' \<mapsto> DFG_java,
      ''cs'' \<mapsto> DFG_csharp, ''c_sharp'' \<mapsto> DFG_csharp]"

text \<open>
  The grammars that \<^verbatim>\<open>parser/build_tree_sitter.py\<close> compiles into \<^verbatim>\<open>my-languages2.so\<close>, by
  the name under which \<^verbatim>\<open>Language(path, name)\<close> finds them.
\<close>

definition my_languages2 :: "string list" where
  "my_languages2 =
     [''go'', ''javascript'', ''python'', ''php'', ''java'', ''ruby'', ''c_sharp'']"

text \<open>
  The first lines of \<^verbatim>\<open>add_structure\<close>:
  \<^verbatim>\<open>Language('parser/my-languages2.so', 'c_sharp' if lang=='cs' else lang)\<close> fails when the
  library has no grammar of that name (\<open>LanguageError\<close> stands for the exception of the
  tree-sitter binding), then \<^verbatim>\<open>dfg_function[lang]\<close> raises KeyError for a tag that is not
  a key.
\<close>

definition add_structure_parser :: "string \<Rightarrow> py_error + (string \<times> dfg_builder)" where
  "add_structure_parser lang =
     (let name = (if lang = ''cs'' then ''c_sharp'' else lang)
      in if name \<notin> set my_languages2 then Inl (LanguageError name)
         else (case dfg_function lang of
                 None \<Rightarrow> Inl (KeyError lang)
               | Some f \<Rightarrow> Inr (name, f)))"

section \<open>The literal text of a leaf token\<close>

text \<open>\<^verbatim>\<open>code.split('\n')\<close>\<close>

fun split_lines :: "string \<Rightarrow> string list" where
  "split_lines [] = [[]]"
| "split_lines (c # cs) =
     (if c = CHR 0x0A then [] # split_lines cs
      else (case split_lines cs of
              [] \<Rightarrow> [[c]]
            | l # ls \<Rightarrow> (c # l) # ls))"

text \<open>\<^verbatim>\<open>code_lines[i]\<close> for a row \<open>i\<close> of a tree-sitter point (never negative).\<close>

definition code_line :: "string list \<Rightarrow> nat \<Rightarrow> py_error + string" where
  "code_line code_lines i = (if i < length code_lines then Inr (code_lines ! i) else Inl IndexError)"

text \<open>\<^verbatim>\<open>for i in range(start[0]+1, end[0]): token += code_lines[i]\<close>\<close>

fun add_lines :: "string list \<Rightarrow> nat list \<Rightarrow> string \<Rightarrow> py_error + string" where
  "add_lines code_lines [] token = Inr token"
| "add_lines code_lines (i # rows) token =
     (case code_line code_lines i of
        Inl e \<Rightarrow> Inl e
      | Inr l \<Rightarrow> add_lines code_lines rows (token @ l))"

text \<open>
  The body of the loop that fills \<^verbatim>\<open>index_to_code\<close> in \<^verbatim>\<open>test_dfg_extraction.py\<close>:
  \<^verbatim>\<open>s[a:b]\<close> is \<open>take (b - a) (drop a s)\<close>, \<^verbatim>\<open>s[a:]\<close> is \<open>drop a s\<close> and \<^verbatim>\<open>s[:b]\<close> is
  \<open>take b s\<close> for the non-negative columns of a point.
\<close>

definition token_text :: "string list \<Rightarrow> (nat \<times> nat) \<times> (nat \<times> nat) \<Rightarrow> py_error + string" where
  "token_text code_lines span =
     (let start = fst span; end = snd span
      in if fst start = fst end then
           (case code_line code_lines (fst start) of
              Inl e \<Rightarrow> Inl e
            | Inr l \<Rightarrow> Inr (take (snd end - snd start) (drop (snd start) l)))
         else
           (case code_line code_lines (fst start) of
              Inl e \<Rightarrow> Inl e
            | Inr l0 \<Rightarrow>
                (case add_lines code_lines [fst start + 1 ..< fst end] ([] @ drop (snd start) l0) of
                   Inl e \<Rightarrow> Inl e
                 | Inr token \<Rightarrow>
                     (case code_line code_lines (fst end) of
                        Inl e \<Rightarrow> Inl e
                      | Inr l1 \<Rightarrow> Inr (token @ take (snd end) l1)))))"

text \<open>
  The text that the source has between the two points of a span that ends on a later
  line than it starts: the same pieces, with the newline that ends each line but the last.
\<close>

definition span_source_text :: "string list \<Rightarrow> (nat \<times> nat) \<times> (nat \<times> nat) \<Rightarrow> string" where
  "span_source_text code_lines span =
     drop (snd (fst span)) (code_lines ! fst (fst span)) @ [CHR 0x0A]
     @ concat (map (\<lambda>i. code_lines ! i @ [CHR 0x0A]) [fst (fst span) + 1 ..< fst (snd span)])
     @ take (snd (snd span)) (code_lines ! fst (snd span))"

text \<open>\<^verbatim>\<open>len(p[1]) > 0\<close> for an entry \<open>p\<close> of the assembled list: its source list is not empty.\<close>

definition pair_has_sources :: "pyval \<Rightarrow> bool" where
  "pair_has_sources p =
     (case py_getitem p 1 of
        Inl e \<Rightarrow> False
      | Inr s \<Rightarrow> (case py_len s of Inl e \<Rightarrow> False | Inr n \<Rightarrow> 0 < n))"

text \<open>
  A three-line Python program with a triple-quoted string that spans lines 0 and 1 (from
  column 4 of line 0 to column 5 of line 1) and, on line 2, the same string on one line.
\<close>

definition multiline_example :: string where
  "multiline_example =
     ''s = '' @ [CHR 0x22, CHR 0x22, CHR 0x22] @ ''ab'' @ [CHR 0x0A]
     @ ''cd'' @ [CHR 0x22, CHR 0x22, CHR 0x22] @ [CHR 0x0A]
     @ ''t = '' @ [CHR 0x22, CHR 0x22, CHR 0x22] @ ''abcd'' @ [CHR 0x22, CHR 0x22, CHR 0x22]"

section \<open>The DFG builder, modelled from the specification\<close>

text \<open>
  The builders \<^verbatim>\<open>DFG_python\<close>, \<^verbatim>\<open>DFG_java\<close> and \<^verbatim>\<open>DFG_csharp\<close> and the helpers of
  \<^verbatim>\<open>parser/utils.py\<close> are imported by the scripts and are not part of the sources at
  hand. The definitions of this section follow sections 3, 4 and 6 of the specification
  instead; each says which sentences it follows and where it has to choose.
\<close>

text \<open>
  Modelled from the spec: SyntaxNode (section 3), "node kind (string/enum tag), start/end
  position (line, column), ordered children". The text of a leaf is read through the
  token index.
\<close>

type_synonym point = "nat \<times> nat"

type_synonym span = "point \<times> point"

datatype SyntaxNode =
  Node (node_kind: string) (node_span: span) (node_children: "SyntaxNode list")

text \<open>
  Modelled from the spec: TokenIndex, "mapping from a span (start position, end position)
  to (sequential integer index, literal token text)"; VariableState, "mapping from
  variable name (string) to an ordered sequence of token indices"; DFGResult, "ordered
  sequence of DFGEdge ... plus the final VariableState snapshot".
\<close>

type_synonym TokenIndex = "span \<rightharpoonup> nat \<times> string"

type_synonym VariableState = "string \<rightharpoonup> nat list"

type_synonym DFGResult = "DFGEdge list \<times> VariableState"

text \<open>
  Modelled from the spec: the canonical patterns of the table of section 4.2. The
  specification leaves to each language "how operands are located within the node's
  children": here a conditional carries the kinds of the children that are its branches,
  a function boundary the kinds of the children that hold its parameters, and an
  assignment or declaration has its target as first child and its value as last child.
  A kind with no entry in a table is an unknown node kind.
\<close>

datatype pattern =
    Leaf_identifier
  | Simple_assignment
  | Compound_expression
  | Declaration_with_init
  | Conditional "string list"
  | Loop
  | Function_boundary "string list"
  | Call
  | Unsupported

type_synonym pattern_table = "string \<rightharpoonup> pattern"

text \<open>
  Modelled from the spec: the names that occur in a subtree, each with its token index, in
  traversal order. A leaf whose span the token index lacks (MalformedSpan, section 7) is
  "recovered locally by treating the reference as having no known definition".
\<close>

fun identifiers :: "pattern_table \<Rightarrow> TokenIndex \<Rightarrow> SyntaxNode \<Rightarrow> (string \<times> nat) list" where
  "identifiers tbl ti (Node k sp cs) =
     (if tbl k = Some Leaf_identifier
      then (case ti sp of None \<Rightarrow> [] | Some (i, name) \<Rightarrow> [(name, i)])
      else concat (map (identifiers tbl ti) cs))"

text \<open>
  Modelled from the spec: "recursively resolves the right-hand subtree to a flat set of
  (name, token-index) source pairs"; a read "looks up current VariableState entries for
  that name", and a compound expression or call "recursively unions the source pairs of
  all children".
\<close>

definition source_pairs ::
  "pattern_table \<Rightarrow> TokenIndex \<Rightarrow> VariableState \<Rightarrow> SyntaxNode \<Rightarrow> (string \<times> nat) list" where
  "source_pairs tbl ti st n =
     remdups (concat (map (\<lambda>(name, i). case st name of
                                           None \<Rightarrow> []
                                         | Some ds \<Rightarrow> map (Pair name) ds)
                          (identifiers tbl ti n)))"

text \<open>
  Modelled from the spec: the relation of an assignment's edges, \<^verbatim>\<open>computedFrom\<close> "derived
  via an expression/operator/call" (a right side whose kind has the compound expression
  or the call pattern), \<^verbatim>\<open>comesFrom\<close> otherwise ("direct copy/assignment-like
  propagation").
\<close>

definition relation_of :: "pattern_table \<Rightarrow> SyntaxNode \<Rightarrow> string" where
  "relation_of tbl rhs =
     (if tbl (node_kind rhs) = Some Compound_expression \<or> tbl (node_kind rhs) = Some Call
      then ''computedFrom'' else ''comesFrom'')"

text \<open>
  Modelled from the spec: "re-binding always overwrites the state for that name going
  forward in sequential code"; a name is bound at its own token index.
\<close>

definition bind_all :: "(string \<times> nat) list \<Rightarrow> VariableState \<Rightarrow> VariableState" where
  "bind_all targets st = fold (\<lambda>(name, i) s. s(name \<mapsto> [i])) targets st"

text \<open>
  Modelled from the spec: the simple assignment pattern, one edge "per left-hand target
  name" with the source pairs of the right side, and the targets bound in the outgoing
  state. The declaration-with-init pattern is "identical to simple assignment" and "must
  bind the name into VariableState even if previously undefined"; the specification's own
  examples (a Python name first assigned in a branch or before a loop is a source later)
  need the same of the simple assignment, so both bind every target.
\<close>

definition assign ::
  "pattern_table \<Rightarrow> TokenIndex \<Rightarrow> SyntaxNode \<Rightarrow> SyntaxNode \<Rightarrow> VariableState \<Rightarrow> DFGResult" where
  "assign tbl ti lhs rhs st =
     (let srcs = source_pairs tbl ti st rhs;
          targets = identifiers tbl ti lhs;
          rel = relation_of tbl rhs
      in (map (\<lambda>(name, i). (name, i, rel, map fst srcs, map snd srcs)) targets,
          bind_all targets st))"

text \<open>
  Modelled from the spec: "merge outgoing states by union of token indices per name (a
  name defined in only one branch is still carried forward ...)".
\<close>

definition merge_states :: "VariableState \<Rightarrow> VariableState \<Rightarrow> VariableState" where
  "merge_states a b =
     (\<lambda>n. case a n of
             None \<Rightarrow> b n
           | Some xs \<Rightarrow>
               (case b n of
                  None \<Rightarrow> Some xs
                | Some ys \<Rightarrow> Some (xs @ filter (\<lambda>y. y \<notin> set xs) ys)))"

fun merge_all :: "VariableState list \<Rightarrow> VariableState" where
  "merge_all [] = Map.empty"
| "merge_all [s] = s"
| "merge_all (s # ss) = merge_states s (merge_all ss)"

text \<open>
  Modelled from the spec: "the final outgoing state is the state after the second pass
  merged with the pre-loop state for names not touched by the body"; the names the body
  touches are those its edges define.
\<close>

definition loop_exit :: "DFGEdge list \<Rightarrow> VariableState \<Rightarrow> VariableState \<Rightarrow> VariableState" where
  "loop_exit body_edges pre post =
     (\<lambda>n. if n \<in> edge_var ` set body_edges then post n else pre n)"

text \<open>
  Modelled from the spec: the DFG Builder of section 4.2, "recursively transform a syntax
  (sub)tree plus an incoming VariableState into (edges, outgoing VariableState)", one case
  per pattern of the table:
  \<^item> a leaf identifier emits no edge ("reads are resolved when the enclosing
    assignment/expression is processed");
  \<^item> an assignment or declaration with fewer than two children has no operands to locate
    and degrades to the unsupported pattern;
  \<^item> a compound expression or call "does not itself emit an edge";
  \<^item> a conditional analyses the children that are not branches first, then "each branch
    independently starting from the same incoming state", and merges the branches' states;
  \<^item> a loop analyses its children once, then "a second time with the updated state (the
    one produced by the first pass)", and keeps the edges of both passes;
  \<^item> a function boundary "starts a fresh VariableState seeded with parameter names bound
    at their own token indices" and "does not leak its outgoing state";
  \<^item> an unsupported or unknown kind recurses "into children uniformly, propagating state,
    emitting no edges of its own".
  The recursion follows the tree, so it ends on every tree; the depth cap that section 5
  asks of callers is not part of it.
\<close>

function build :: "pattern_table \<Rightarrow> TokenIndex \<Rightarrow> SyntaxNode \<Rightarrow> VariableState \<Rightarrow> DFGResult"
  and build_children ::
    "pattern_table \<Rightarrow> TokenIndex \<Rightarrow> SyntaxNode list \<Rightarrow> VariableState \<Rightarrow> DFGResult"
  and build_branches ::
    "pattern_table \<Rightarrow> TokenIndex \<Rightarrow> SyntaxNode list \<Rightarrow> VariableState \<Rightarrow> DFGResult list"
where
  "build tbl ti (Node k sp cs) st =
     (case tbl k of
        None \<Rightarrow> build_children tbl ti cs st
      | Some Unsupported \<Rightarrow> build_children tbl ti cs st
      | Some Leaf_identifier \<Rightarrow> ([], st)
      | Some Compound_expression \<Rightarrow> build_children tbl ti cs st
      | Some Call \<Rightarrow> build_children tbl ti cs st
      | Some Simple_assignment \<Rightarrow>
          (if length cs < 2 then build_children tbl ti cs st
           else assign tbl ti (hd cs) (last cs) st)
      | Some Declaration_with_init \<Rightarrow>
          (if length cs < 2 then build_children tbl ti cs st
           else assign tbl ti (hd cs) (last cs) st)
      | Some (Conditional bks) \<Rightarrow>
          (let (ce, cst) = build_children tbl ti (filter (\<lambda>c. node_kind c \<notin> set bks) cs) st;
               rs = build_branches tbl ti (filter (\<lambda>c. node_kind c \<in> set bks) cs) st
           in (ce @ concat (map fst rs), if rs = [] then cst else merge_all (map snd rs)))
      | Some Loop \<Rightarrow>
          (let (e1, st1) = build_children tbl ti cs st;
               (e2, st2) = build_children tbl ti cs st1
           in (e1 @ e2, loop_exit (e1 @ e2) st st2))
      | Some (Function_boundary pks) \<Rightarrow>
          (let params = concat (map (identifiers tbl ti)
                                    (filter (\<lambda>c. node_kind c \<in> set pks) cs));
               (e, st') = build_children tbl ti (filter (\<lambda>c. node_kind c \<notin> set pks) cs)
                            (bind_all params Map.empty)
           in (e, st)))"
| "build_children tbl ti [] st = ([], st)"
| "build_children tbl ti (c # cs) st =
     (let (e1, st1) = build tbl ti c st;
          (e2, st2) = build_children tbl ti cs st1
      in (e1 @ e2, st2))"
| "build_branches tbl ti [] st = []"
| "build_branches tbl ti (c # cs) st = build tbl ti c st # build_branches tbl ti cs st"
  by pat_completeness auto
termination
proof -
  have filt: "size_list f (filter P xs) \<le> size_list f xs"
    for f :: "SyntaxNode \<Rightarrow> nat" and P xs
    by (induction xs) simp_all
  show ?thesis
    by (relation "measure (\<lambda>x. case x of
            Inl (tbl, ti, n, st) \<Rightarrow> size n
          | Inr (Inl (tbl, ti, cs, st)) \<Rightarrow> size_list size cs
          | Inr (Inr (tbl, ti, cs, st)) \<Rightarrow> size_list size cs)")
       (auto simp: filt less_Suc_eq_le)
qed




text \<open>
  Modelled from the spec: \<^verbatim>\<open>tree_to_token_index\<close> of \<^verbatim>\<open>parser/utils.py\<close>, after section 4.1:
  "returns every leaf node's span ... consistent with a pre-order, left-to-right
  traversal".
\<close>

fun leaf_spans :: "SyntaxNode \<Rightarrow> span list" where
  "leaf_spans (Node k sp cs) = (if cs = [] then [sp] else concat (map leaf_spans cs))"

text \<open>
  The loop of \<^verbatim>\<open>test_dfg_extraction.py\<close> that fills the token index:
  \<^verbatim>\<open>for idx, (start, end) in enumerate(token_index): ... index_to_code[(start, end)] = (idx, token)\<close>
  over \<^verbatim>\<open>code_lines = code.split('\n')\<close>.
\<close>

fun index_tokens ::
  "string list \<Rightarrow> nat \<Rightarrow> span list \<Rightarrow> TokenIndex \<Rightarrow> py_error + TokenIndex" where
  "index_tokens code_lines idx [] index_to_code = Inr index_to_code"
| "index_tokens code_lines idx (sp # sps) index_to_code =
     (case token_text code_lines sp of
        Inl e \<Rightarrow> Inl e
      | Inr token \<Rightarrow>
          index_tokens code_lines (Suc idx) sps (index_to_code(sp \<mapsto> (idx, token))))"

definition index_to_code :: "string \<Rightarrow> SyntaxNode \<Rightarrow> py_error + TokenIndex" where
  "index_to_code code root = index_tokens (split_lines code) 0 (leaf_spans root) Map.empty"

text \<open>
  Modelled from the spec: a pattern table for Python. The specification names the
  patterns and what they apply to ("\<^verbatim>\<open>x = y\<close> shaped nodes", "binary/unary operators,
  calls", "branch constructs", "iteration constructs", "function definitions, lambdas")
  and no table; this one gives the node kinds of the Python grammar of tree-sitter the
  pattern whose "applies to" describes them.
\<close>

definition python_table :: pattern_table where
  "python_table =
     [''identifier'' \<mapsto> Leaf_identifier,
      ''assignment'' \<mapsto> Simple_assignment,
      ''augmented_assignment'' \<mapsto> Simple_assignment,
      ''binary_operator'' \<mapsto> Compound_expression,
      ''unary_operator'' \<mapsto> Compound_expression,
      ''comparison_operator'' \<mapsto> Compound_expression,
      ''boolean_operator'' \<mapsto> Compound_expression,
      ''call'' \<mapsto> Call,
      ''if_statement'' \<mapsto> Conditional [''block'', ''elif_clause'', ''else_clause''],
      ''for_statement'' \<mapsto> Loop,
      ''while_statement'' \<mapsto> Loop,
      ''function_definition'' \<mapsto> Function_boundary [''parameters''],
      ''lambda'' \<mapsto> Function_boundary [''lambda_parameters'']]"

section \<open>The two example programs of the specification\<close>

text \<open>
  The program of \<^verbatim>\<open>test_complex_example\<close>, and its syntax tree as the Python grammar of
  tree-sitter gives it (kind, span from (row, column) to (row, column), children).
\<close>

definition loop_source :: string where
  "loop_source =
     ''total = 0'' @ [CHR 0x0A] @ ''for i in range(5):'' @ [CHR 0x0A]
     @ ''    total = total + i'' @ [CHR 0x0A] @ ''result = total * 2''"

definition loop_tree :: SyntaxNode where
  "loop_tree =
     Node ''module'' ((0,0),(3,18))
      [Node ''expression_statement'' ((0,0),(0,9))
        [Node ''assignment'' ((0,0),(0,9))
          [Node ''identifier'' ((0,0),(0,5)) [],
           Node ''='' ((0,6),(0,7)) [],
           Node ''integer'' ((0,8),(0,9)) []]],
       Node ''for_statement'' ((1,0),(2,21))
        [Node ''for'' ((1,0),(1,3)) [],
         Node ''identifier'' ((1,4),(1,5)) [],
         Node ''in'' ((1,6),(1,8)) [],
         Node ''call'' ((1,9),(1,17))
          [Node ''identifier'' ((1,9),(1,14)) [],
           Node ''argument_list'' ((1,14),(1,17))
            [Node ''('' ((1,14),(1,15)) [],
             Node ''integer'' ((1,15),(1,16)) [],
             Node '')'' ((1,16),(1,17)) []]],
         Node '':'' ((1,17),(1,18)) [],
         Node ''block'' ((2,4),(2,21))
          [Node ''expression_statement'' ((2,4),(2,21))
            [Node ''assignment'' ((2,4),(2,21))
              [Node ''identifier'' ((2,4),(2,9)) [],
               Node ''='' ((2,10),(2,11)) [],
               Node ''binary_operator'' ((2,12),(2,21))
                [Node ''identifier'' ((2,12),(2,17)) [],
                 Node ''+'' ((2,18),(2,19)) [],
                 Node ''identifier'' ((2,20),(2,21)) []]]]]],
       Node ''expression_statement'' ((3,0),(3,18))
        [Node ''assignment'' ((3,0),(3,18))
          [Node ''identifier'' ((3,0),(3,6)) [],
           Node ''='' ((3,7),(3,8)) [],
           Node ''binary_operator'' ((3,9),(3,18))
            [Node ''identifier'' ((3,9),(3,14)) [],
             Node ''*'' ((3,15),(3,16)) [],
             Node ''integer'' ((3,17),(3,18)) []]]]]"

text \<open>
  The branch program of section 8 of the specification: its conditional statement, and
  the whole module.
\<close>

definition branch_source :: string where
  "branch_source =
     ''if cond:'' @ [CHR 0x0A] @ ''    x = 1'' @ [CHR 0x0A] @ ''else:'' @ [CHR 0x0A]
     @ ''    x = 2'' @ [CHR 0x0A] @ ''y = x''"

definition branch_if :: SyntaxNode where
  "branch_if =
     Node ''if_statement'' ((0,0),(3,9))
      [Node ''if'' ((0,0),(0,2)) [],
       Node ''identifier'' ((0,3),(0,7)) [],
       Node '':'' ((0,7),(0,8)) [],
       Node ''block'' ((1,4),(1,9))
        [Node ''expression_statement'' ((1,4),(1,9))
          [Node ''assignment'' ((1,4),(1,9))
            [Node ''identifier'' ((1,4),(1,5)) [],
             Node ''='' ((1,6),(1,7)) [],
             Node ''integer'' ((1,8),(1,9)) []]]],
       Node ''else_clause'' ((2,0),(3,9))
        [Node ''else'' ((2,0),(2,4)) [],
         Node '':'' ((2,4),(2,5)) [],
         Node ''block'' ((3,4),(3,9))
          [Node ''expression_statement'' ((3,4),(3,9))
            [Node ''assignment'' ((3,4),(3,9))
              [Node ''identifier'' ((3,4),(3,5)) [],
               Node ''='' ((3,6),(3,7)) [],
               Node ''integer'' ((3,8),(3,9)) []]]]]]"

definition branch_tree :: SyntaxNode where
  "branch_tree =
     Node ''module'' ((0,0),(4,5))
      [branch_if,
       Node ''expression_statement'' ((4,0),(4,5))
        [Node ''assignment'' ((4,0),(4,5))
          [Node ''identifier'' ((4,0),(4,1)) [],
           Node ''='' ((4,2),(4,3)) [],
           Node ''identifier'' ((4,4),(4,5)) []]]]"

section \<open>The assembling comprehension on well-formed edges\<close>

lemma assemble_edge_vals:
  "assemble (map edge_val E) = Inr (map edge_pair (filter has_sources E))"
  by (induction E) (simp_all add: edge_val_def edge_pair_def has_sources_def)

lemma assert_relations_edge_vals:
  "assert_relations (map edge_val E) =
     (if list_all valid_relation E then Inr () else Inl AssertionError)"
  by (induction E) (simp_all add: edge_val_def valid_relation_def)

lemma assemble_edge_pairs:
  "assemble (map edge_pair F) = (if F = [] then Inr [] else Inl IndexError)"
  by (cases F) (simp_all add: edge_pair_def)

lemma edge_pair_has_sources:
  "pair_has_sources (edge_pair e) = has_sources e"
  by (simp add: pair_has_sources_def edge_pair_def has_sources_def)

lemma edge_val_example:
  "edge_val (''y'', 5, ''comesFrom'', [''x''], [0]) =
     PTuple [PStr ''y'', PInt 5, PStr ''comesFrom'', PList [PStr ''x''], PList [PInt 0]]"
  by (simp add: edge_val_def edge_var_def edge_idx_def edge_rel_def edge_sources_def
      edge_source_idx_def)

text \<open>
  C3, as stated: the output of the assembler is the subsequence of the input edges that
  have a source. It is not: the one input edge \<^verbatim>\<open>('y', 5, 'comesFrom', ['x'], [0])\<close> has a
  source and the output is \<^verbatim>\<open>[(5, [0])]\<close>, not that edge.
\<close>

theorem assemble_not_input_edges_counterexample:
  "assemble (map edge_val [(''y'', 5, ''comesFrom'', [''x''], [0])])
     = Inr [PTuple [PInt 5, PList [PInt 0]]]
   \<and> assemble (map edge_val [(''y'', 5, ''comesFrom'', [''x''], [0])])
     \<noteq> Inr (map edge_val (filter has_sources [(''y'', 5, ''comesFrom'', [''x''], [0])]))"
  by (simp add: edge_val_example has_sources_def edge_source_idx_def)

text \<open>
  C3, amended: on every sequence of edges the assembler returns, in the order of the
  input, the pair (defined token index, source token indices) of each edge whose source
  index list is not empty, and of no other edge; the variable name, the relation and the
  source names are not in the output. No pair of the output has an empty source list.
  The input is not changed (the comprehension is a function of its input).
\<close>

theorem assemble_pairs_of_sourced_edges:
  "assemble (map edge_val E) = Inr (map edge_pair (filter has_sources E))
   \<and> list_all pair_has_sources (map edge_pair (filter has_sources E))"
  by (simp add: assemble_edge_vals list_all_iff edge_pair_has_sources)

text \<open>
  C7, as stated: assembling the assembled output gives the assembled output. The
  comprehension reads \<^verbatim>\<open>d[4]\<close>, and an entry of its own output is a pair: on the output
  \<^verbatim>\<open>[(5, [0])]\<close> of the edge \<^verbatim>\<open>('y', 5, 'comesFrom', ['x'], [0])\<close> it raises IndexError.
\<close>

theorem assemble_twice_counterexample:
  "assemble [edge_val (''y'', 5, ''comesFrom'', [''x''], [0])]
     = Inr [PTuple [PInt 5, PList [PInt 0]]]
   \<and> assemble [PTuple [PInt 5, PList [PInt 0]]] = Inl IndexError"
  by (simp add: edge_val_example)

text \<open>
  C7, amended: the assembled output is already clean: keeping the entries of the output
  whose source list is not empty keeps all of them. The comprehension itself can be run
  again on its output only when that output is empty, and then returns it; on any other
  output of its own it raises IndexError.
\<close>

theorem assemble_output_clean:
  "assemble (map edge_val E) = Inr out \<Longrightarrow>
     filter pair_has_sources out = out
     \<and> assemble out = (if out = [] then Inr [] else Inl IndexError)"
proof -
  assume "assemble (map edge_val E) = Inr out"
  then have out: "out = map edge_pair (filter has_sources E)"
    by (simp add: assemble_edge_vals)
  have "filter pair_has_sources out = out"
    unfolding out by (induction E) (simp_all add: edge_pair_has_sources)
  moreover have "assemble out = (if out = [] then Inr [] else Inl IndexError)"
    unfolding out by (simp add: assemble_edge_pairs)
  ultimately show ?thesis by simp
qed

theorem assemble_output_clean_witness:
  "assemble (map edge_val [(''y'', 5, ''comesFrom'', [''x''], [0]), (''x'', 0, ''comesFrom'', [], [])])
     = Inr [PTuple [PInt 5, PList [PInt 0]]]
   \<and> filter pair_has_sources [PTuple [PInt 5, PList [PInt 0]]] = [PTuple [PInt 5, PList [PInt 0]]]
   \<and> assemble [PTuple [PInt 5, PList [PInt 0]]] = Inl IndexError"
proof -
  have a: "assemble (map edge_val [(''y'', 5, ''comesFrom'', [''x''], [0]), (''x'', 0, ''comesFrom'', [], [])])
     = Inr [PTuple [PInt 5, PList [PInt 0]]]"
    by (simp add: edge_val_def edge_var_def edge_idx_def edge_rel_def edge_sources_def
        edge_source_idx_def)
  show ?thesis
    using a assemble_output_clean [OF a] by simp
qed

section \<open>What extract_structure returns\<close>

text \<open>
  C9: when the call of the builder raises, the DFG of \<^verbatim>\<open>extract_structure\<close> is the empty
  list. When it returns the edges \<open>E\<close> (and any state), \<^verbatim>\<open>extract_structure\<close> returns, in the
  order of \<open>E\<close>, the pair (defined token index, source token indices) of each edge of \<open>E\<close>
  with a non-empty source index list, and nothing of the names or the relation; it
  returns at all exactly when every relation passes the assertion.
\<close>

theorem extract_structure_dfg_projection:
  "extract_structure_dfg (Inl err) = Inr []
   \<and> extract_structure_dfg (Inr (map edge_val E, st)) =
       (if list_all valid_relation E
        then Inr (map edge_pair (filter has_sources E))
        else Inl AssertionError)
   \<and> edge_pair (var, idx, rel, sources, source_idx) =
       PTuple [PInt (int idx), PList (map (\<lambda>i. PInt (int i)) source_idx)]"
  by (simp add: extract_structure_dfg_def assert_relations_edge_vals assemble_edge_vals
      edge_pair_def edge_idx_def edge_source_idx_def)

section \<open>Which language tags have a builder\<close>

text \<open>
  C6, as stated: every tag of python, java, c_sharp, javascript, php, ruby, go has a table.
  The tag javascript names a grammar of the parser library and has no entry in
  \<^verbatim>\<open>dfg_function\<close>; the lookup raises KeyError.
\<close>

theorem javascript_unregistered_counterexample:
  "dfg_function ''javascript'' = None
   \<and> add_structure_parser ''javascript'' = Inl (KeyError ''javascript'')"
  by (simp add: dfg_function_def add_structure_parser_def my_languages2_def)

text \<open>
  C6, amended: the tags with a builder are python, java, cs and c_sharp (the last two
  share the C# builder and grammar). Every other tag fails: with KeyError when the parser
  library has a grammar of that name (javascript, php, ruby, go), and when loading the
  grammar otherwise. So the lookup fails exactly for the tags with no entry.
\<close>

theorem add_structure_parser_cases:
  "add_structure_parser lang =
     (if lang = ''python'' then Inr (''python'', DFG_python)
      else if lang = ''java'' then Inr (''java'', DFG_java)
      else if lang = ''cs'' \<or> lang = ''c_sharp'' then Inr (''c_sharp'', DFG_csharp)
      else if lang \<in> {''javascript'', ''php'', ''ruby'', ''go''} then Inl (KeyError lang)
      else Inl (LanguageError lang))"
  by (simp add: add_structure_parser_def dfg_function_def my_languages2_def)

section \<open>Leaf tokens that span several lines\<close>

lemma split_lines_not_Nil: "split_lines s \<noteq> []"
  by (induction s) (auto split: list.splits)

lemma split_lines_no_newline: "l \<in> set (split_lines s) \<Longrightarrow> CHR 0x0A \<notin> set l"
proof (induction s arbitrary: l)
  case Nil
  then show ?case by simp
next
  case (Cons c cs)
  show ?case
  proof (cases "c = CHR 0x0A")
    case True
    with Cons show ?thesis by auto
  next
    case False
    obtain l0 ls where sp: "split_lines cs = l0 # ls"
      using split_lines_not_Nil [of cs] by (cases "split_lines cs") auto
    with Cons False show ?thesis by auto
  qed
qed

lemma add_lines_in_range:
  "list_all (\<lambda>i. i < length L) rows \<Longrightarrow>
   add_lines L rows token = Inr (token @ concat (map (\<lambda>i. L ! i) rows))"
  by (induction rows arbitrary: token) (simp_all add: code_line_def)

lemma token_text_two_rows:
  assumes "s0 < e0" and "e0 < length L"
  shows "token_text L ((s0, s1), (e0, e1)) =
         Inr (drop s1 (L ! s0) @ concat (map (\<lambda>i. L ! i) [s0 + 1 ..< e0]) @ take e1 (L ! e0))"
proof -
  have "list_all (\<lambda>i. i < length L) [s0 + 1 ..< e0]"
    using assms by (simp add: list_all_iff)
  then show ?thesis
    using assms by (simp add: token_text_def code_line_def add_lines_in_range)
qed

lemma multiline_example_lines:
  "split_lines multiline_example =
     [''s = '' @ [CHR 0x22, CHR 0x22, CHR 0x22] @ ''ab'',
      ''cd'' @ [CHR 0x22, CHR 0x22, CHR 0x22],
      ''t = '' @ [CHR 0x22, CHR 0x22, CHR 0x22] @ ''abcd'' @ [CHR 0x22, CHR 0x22, CHR 0x22]]"
  by (simp add: multiline_example_def)

text \<open>
  C10, as stated: the text stored for a leaf that spans lines is never a substring of the
  source. In \<open>multiline_example\<close> the text stored for the string of lines 0 and 1 is the
  string with the newline dropped, and that is what line 2 of the source reads.
\<close>

theorem stored_text_substring_counterexample:
  "token_text (split_lines multiline_example) ((0, 4), (1, 5))
     = Inr ([CHR 0x22, CHR 0x22, CHR 0x22] @ ''abcd'' @ [CHR 0x22, CHR 0x22, CHR 0x22])
   \<and> sublist ([CHR 0x22, CHR 0x22, CHR 0x22] @ ''abcd'' @ [CHR 0x22, CHR 0x22, CHR 0x22])
       multiline_example"
proof
  show "token_text (split_lines multiline_example) ((0, 4), (1, 5))
     = Inr ([CHR 0x22, CHR 0x22, CHR 0x22] @ ''abcd'' @ [CHR 0x22, CHR 0x22, CHR 0x22])"
    by (simp add: multiline_example_lines token_text_def code_line_def)
  have "multiline_example =
      (''s = '' @ [CHR 0x22, CHR 0x22, CHR 0x22] @ ''ab'' @ [CHR 0x0A]
        @ ''cd'' @ [CHR 0x22, CHR 0x22, CHR 0x22] @ [CHR 0x0A] @ ''t = '')
      @ ([CHR 0x22, CHR 0x22, CHR 0x22] @ ''abcd'' @ [CHR 0x22, CHR 0x22, CHR 0x22]) @ []"
    by (simp add: multiline_example_def)
  then show "sublist ([CHR 0x22, CHR 0x22, CHR 0x22] @ ''abcd'' @ [CHR 0x22, CHR 0x22, CHR 0x22])
       multiline_example"
    unfolding sublist_def by blast
qed

text \<open>
  C10, amended: for a leaf that starts on row \<open>s0\<close> and ends on a later row \<open>e0\<close> of the
  source, the stored text is the tail of line \<open>s0\<close> from the start column, then every line
  strictly between, then the head of line \<open>e0\<close> up to the end column, with nothing between
  the pieces. It holds no newline, so it is not the text that the source has at the span
  of the leaf (it may still occur elsewhere in the source).
\<close>

theorem multiline_token_text:
  assumes "s0 < e0" and "e0 < length (split_lines code)"
  shows "let L = split_lines code;
             T = drop s1 (L ! s0) @ concat (map (\<lambda>i. L ! i) [s0 + 1 ..< e0]) @ take e1 (L ! e0)
         in token_text L ((s0, s1), (e0, e1)) = Inr T
            \<and> CHR 0x0A \<notin> set T
            \<and> T \<noteq> span_source_text L ((s0, s1), (e0, e1))"
proof -
  define L where "L = split_lines code"
  define T where
    "T = drop s1 (L ! s0) @ concat (map (\<lambda>i. L ! i) [s0 + 1 ..< e0]) @ take e1 (L ! e0)"
  have len: "e0 < length L" "s0 < length L"
    using assms by (simp_all add: L_def)
  have nl: "CHR 0x0A \<notin> set (L ! i)" if "i < length L" for i
    using that split_lines_no_newline [of "L ! i" code] by (simp add: L_def)
  have a: "CHR 0x0A \<notin> set (drop s1 (L ! s0))"
    using nl [OF len(2)] by (meson in_set_dropD)
  have b: "CHR 0x0A \<notin> set (take e1 (L ! e0))"
    using nl [OF len(1)] by (meson in_set_takeD)
  have c: "CHR 0x0A \<notin> set (concat (map (\<lambda>i. L ! i) [s0 + 1 ..< e0]))"
    using nl len by auto
  have T_nl: "CHR 0x0A \<notin> set T"
    using a b c by (simp add: T_def)
  have "CHR 0x0A \<in> set (span_source_text L ((s0, s1), (e0, e1)))"
    by (simp add: span_source_text_def)
  with T_nl have ne: "T \<noteq> span_source_text L ((s0, s1), (e0, e1))"
    by metis
  have "token_text L ((s0, s1), (e0, e1)) = Inr T"
    unfolding T_def using assms(1) len(1) by (rule token_text_two_rows)
  with T_nl ne show ?thesis
    unfolding Let_def L_def [symmetric] T_def [symmetric] by simp
qed

theorem multiline_token_text_witness:
  "(0::nat) < 1 \<and> 1 < length (split_lines multiline_example)
   \<and> token_text (split_lines multiline_example) ((0, 4), (1, 5))
       = Inr ([CHR 0x22, CHR 0x22, CHR 0x22] @ ''abcd'' @ [CHR 0x22, CHR 0x22, CHR 0x22])
   \<and> [CHR 0x22, CHR 0x22, CHR 0x22] @ ''abcd'' @ [CHR 0x22, CHR 0x22, CHR 0x22]
       \<noteq> span_source_text (split_lines multiline_example) ((0, 4), (1, 5))"
  using multiline_token_text [of 0 1 multiline_example 4 5]
  by (simp add: multiline_example_lines Let_def)

section \<open>The modelled builder: relations, unknown kinds, the two examples\<close>

lemma assign_valid: "list_all valid_relation (fst (assign tbl ti l r st))"
  by (simp add: assign_def Let_def list_all_iff valid_relation_def edge_rel_def
      relation_of_def split: prod.splits)

lemma build_valid:
  "list_all valid_relation (fst (build tbl ti n st))"
  "list_all valid_relation (fst (build_children tbl ti cs st))"
  "list_all (\<lambda>r. list_all valid_relation (fst r)) (build_branches tbl ti cs st)"
proof (induction tbl ti n st and tbl ti cs st and tbl ti cs st
       rule: build_build_children_build_branches.induct)
  case (1 tbl ti k sp cs st)
  show ?case
  proof (cases "tbl k")
    case None
    with 1 show ?thesis by simp
  next
    case (Some p)
    show ?thesis
    proof (cases p)
      case (Conditional bks)
      obtain ce cst where
        c: "build_children tbl ti (filter (\<lambda>c. node_kind c \<notin> set bks) cs) st = (ce, cst)"
        by (cases "build_children tbl ti (filter (\<lambda>c. node_kind c \<notin> set bks) cs) st")
      have a: "list_all valid_relation ce"
        using "1.IH"(5) [OF Some Conditional] c by simp
      have b: "list_all (\<lambda>r. list_all valid_relation (fst r))
                 (build_branches tbl ti (filter (\<lambda>c. node_kind c \<in> set bks) cs) st)"
        using "1.IH"(6) [OF Some Conditional refl c [symmetric]] by simp
      from a b show ?thesis
        using Some Conditional c by (auto simp: list_all_iff Let_def)
    next
      case Loop
      obtain e1 st1 where c1: "build_children tbl ti cs st = (e1, st1)"
        by (cases "build_children tbl ti cs st")
      obtain e2 st2 where c2: "build_children tbl ti cs st1 = (e2, st2)"
        by (cases "build_children tbl ti cs st1")
      have a: "list_all valid_relation e1"
        using "1.IH"(7) [OF Some Loop] c1 by simp
      have b: "list_all valid_relation e2"
        using "1.IH"(8) [OF Some Loop refl c1 [symmetric]] c2 by simp
      from a b show ?thesis
        using Some Loop c1 c2 by (simp add: Let_def)
    next
      case (Function_boundary pks)
      then show ?thesis
        using Some "1.IH"(9) [OF Some Function_boundary refl]
        by (simp add: Let_def split: prod.splits) (metis fst_conv)
    qed (use 1 Some in \<open>simp_all add: assign_valid\<close>)
  qed
next
  case (2 tbl ti st)
  show ?case by simp
next
  case (3 tbl ti c cs st)
  obtain e1 st1 where c1: "build tbl ti c st = (e1, st1)"
    by (cases "build tbl ti c st")
  obtain e2 st2 where c2: "build_children tbl ti cs st1 = (e2, st2)"
    by (cases "build_children tbl ti cs st1")
  have "list_all valid_relation e1"
    using "3.IH"(1) c1 by simp
  moreover have "list_all valid_relation e2"
    using "3.IH"(2) [OF refl c1 [symmetric]] c2 by simp
  ultimately show ?case
    using c1 c2 by (simp add: Let_def)
next
  case (4 tbl ti st)
  show ?case by simp
next
  case (5 tbl ti c cs st)
  then show ?case by simp
qed

text \<open>
  C4: whatever the pattern table, the token index, the tree and the incoming state, every
  edge the modelled builder returns has the relation \<^verbatim>\<open>comesFrom\<close> or \<^verbatim>\<open>computedFrom\<close>, so
  the assertion of \<^verbatim>\<open>extract_structure\<close> passes on its result and the pairs are returned.
\<close>

theorem builder_relations_valid:
  "list_all valid_relation (fst (build tbl ti t st))
   \<and> extract_structure_dfg
        (Inr (map edge_val (fst (build tbl ti t st)), snd (build tbl ti t st)))
       = Inr (map edge_pair (filter has_sources (fst (build tbl ti t st))))"
  by (simp add: build_valid(1) extract_structure_dfg_def assert_relations_edge_vals
      assemble_edge_vals)







text \<open>
  C1: on the loop program, with the token index that the test script builds for it, the
  in-loop target \<^verbatim>\<open>total\<close> is token 11, and the modelled builder with the Python table
  returns four edges: for token 11 an edge from \<^verbatim>\<open>total\<close> at its definition before the
  loop (first pass) and one from \<^verbatim>\<open>total\<close> at token 11 itself (second pass), and for
  \<^verbatim>\<open>result\<close> a \<^verbatim>\<open>computedFrom\<close> edge with source \<^verbatim>\<open>total\<close>.
\<close>

theorem loop_example_edges:
  "case index_to_code loop_source loop_tree of
     Inl e \<Rightarrow> False
   | Inr ti \<Rightarrow>
       ti ((2,4),(2,9)) = Some (11, ''total'')
       \<and> fst (build python_table ti loop_tree Map.empty) =
          [(''total'', 0, ''comesFrom'', [], []),
           (''total'', 11, ''computedFrom'', [''total''], [0]),
           (''total'', 11, ''computedFrom'', [''total''], [11]),
           (''result'', 16, ''computedFrom'', [''total''], [11])]
       \<and> snd (build python_table ti loop_tree Map.empty) ''total'' = Some [11]"
  by code_simp

text \<open>
  C2: on the branch program, with the token index that the test script builds for it, the
  definitions of \<^verbatim>\<open>x\<close> in the then-branch and in the else-branch are tokens 3 and 8; the
  state that the modelled builder returns for the conditional has both for \<^verbatim>\<open>x\<close>, and the
  edge of \<^verbatim>\<open>y\<close> has both as source token indices.
\<close>

theorem branch_example_union:
  "case index_to_code branch_source branch_tree of
     Inl e \<Rightarrow> False
   | Inr ti \<Rightarrow>
       ti ((1,4),(1,5)) = Some (3, ''x'') \<and> ti ((3,4),(3,5)) = Some (8, ''x'')
       \<and> snd (build python_table ti branch_if Map.empty) ''x'' = Some [3, 8]
       \<and> fst (build python_table ti branch_tree Map.empty) =
           [(''x'', 3, ''comesFrom'', [], []), (''x'', 8, ''comesFrom'', [], []),
            (''y'', 11, ''comesFrom'', [''x'', ''x''], [3, 8])]"
  by code_simp

end
